theory Spec2Isabelle
  imports
    Complex_Main
    "HOL-Library.Sublist"
    "HOL-Library.Char_ord"
    "HOL-Library.List_Lexorder"
    "HOL-Library.Product_Lexorder"
    "HOL-Library.Word"
begin

section \<open>Strings\<close>

text \<open>
  Python strings are modelled as \<^typ>\<open>string\<close>, a list of characters; a character
  stands for a code point below 256.  The order on strings (lexicographic, by code
  point, a proper prefix first) is the one Python's \<open>sorted\<close> uses on \<open>str\<close>.
\<close>

definition lower_char :: "char \<Rightarrow> char" where
  \<comment> \<open>\<open>str.lower\<close> on one code point below 256: the letters A-Z and the Latin-1
      capitals (0xC0-0xDE, the multiplication sign 0xD7 apart) move up by 32.\<close>
  "lower_char c =
     (let n = (of_char c :: nat)
      in if (65 \<le> n \<and> n \<le> 90) \<or> (192 \<le> n \<and> n \<le> 222 \<and> n \<noteq> 215)
         then char_of (n + 32) else c)"

definition lower :: "string \<Rightarrow> string" where
  "lower s = map lower_char s"

definition startswith :: "string \<Rightarrow> string \<Rightarrow> bool" where
  \<comment> \<open>\<open>s.startswith(p)\<close>\<close>
  "startswith s p = prefix p s"

definition contains :: "string \<Rightarrow> string \<Rightarrow> bool" where
  \<comment> \<open>\<open>p in s\<close> on strings: \<open>p\<close> occurs in \<open>s\<close> as a contiguous substring\<close>
  "contains s p = sublist p s"

function str_replace :: "string \<Rightarrow> string \<Rightarrow> string \<Rightarrow> string" where
  \<comment> \<open>\<open>s.replace(old, new)\<close>: every non-overlapping occurrence, left to right\<close>
  "str_replace old new s =
     (if old = [] then new @ concat (map (\<lambda>c. c # new) s)
      else (case s of
              [] \<Rightarrow> []
            | c # cs \<Rightarrow>
                if prefix old s then new @ str_replace old new (drop (length old) s)
                else c # str_replace old new cs))"
  by pat_completeness auto
termination
  by (relation "measure (\<lambda>(old, new, s). length s)") auto

declare str_replace.simps [simp del]

fun split_on :: "char \<Rightarrow> string \<Rightarrow> string list" where
  \<comment> \<open>\<open>s.split(d)\<close> for a one-character separator\<close>
  "split_on d [] = [[]]"
| "split_on d (c # cs) =
     (if c = d then [] # split_on d cs
      else (case split_on d cs of
              [] \<Rightarrow> [[c]]
            | p # ps \<Rightarrow> (c # p) # ps))"

section \<open>Workflow documents\<close>

text \<open>
  A node of the workflow document, at the types the parser reads it: the value of
  \<open>type\<close> when the key is present, the \<open>parameters\<close> object and the
  \<open>credentials\<close> object (credential kind to credential reference) as association
  lists, \<open>None\<close> when the key is absent.
\<close>

record wnode =
  ntype :: "string option"
  parameters :: "(string \<times> string) list option"
  credentials :: "(string \<times> string) list option"

section \<open>Node analysis (parser.py)\<close>

definition LOCAL_SERVICES :: "string set" where
  "LOCAL_SERVICES = {''ollama'', ''postgres'', ''qdrant'', ''supabase'', ''neo4j'',
     ''langfuse'', ''flowise'', ''redis'', ''minio'', ''clickhouse''}"

definition LOCAL_AI_NODES :: "string set" where
  "LOCAL_AI_NODES = {
     ''@n8n/n8n-nodes-langchain.agent'',
     ''@n8n/n8n-nodes-langchain.chainLlm'',
     ''@n8n/n8n-nodes-langchain.chainSummarization'',
     ''@n8n/n8n-nodes-langchain.chainRetrievalQa'',
     ''@n8n/n8n-nodes-langchain.lmChatOllama'',
     ''@n8n/n8n-nodes-langchain.lmOllama'',
     ''@n8n/n8n-nodes-langchain.embeddingsOllama''}"

text \<open>The accumulators of the loop of \<open>_analyze_nodes\<close>.\<close>

record analysis_state =
  st_integrations :: "string set"
  st_node_types :: "string set"
  st_has_webhook :: bool
  st_has_schedule :: bool
  st_has_local_ai :: bool
  st_credential_types :: "string set"

definition init_state :: analysis_state where
  "init_state = \<lparr>st_integrations = {}, st_node_types = {}, st_has_webhook = False,
     st_has_schedule = False, st_has_local_ai = False, st_credential_types = {}\<rparr>"

definition node_integrations :: "string \<Rightarrow> string set" where
  \<comment> \<open>the integration names one node type adds (none or one)\<close>
  "node_integrations node_type =
     (if startswith node_type ''n8n-nodes-base.''
      then {lower (str_replace ''n8n-nodes-base.'' '''' node_type)}
      else if startswith node_type ''@n8n/''
      then (let parts = split_on CHR ''.'' node_type
            in if length parts > 1 then {lower (last parts)} else {})
      else {})"

definition node_credential_types :: "wnode \<Rightarrow> string set" where
  "node_credential_types node =
     (let creds = (case credentials node of None \<Rightarrow> [] | Some d \<Rightarrow> d)
      in set (map (\<lambda>(cred_type, ref). lower cred_type) creds))"

definition node_get_type :: "wnode \<Rightarrow> string" where
  \<comment> \<open>\<open>node.get('type', '')\<close>\<close>
  "node_get_type node = (case ntype node of None \<Rightarrow> '''' | Some t \<Rightarrow> t)"

definition analyze_step :: "wnode \<Rightarrow> analysis_state \<Rightarrow> analysis_state" where
  \<comment> \<open>one iteration of the loop over the nodes\<close>
  "analyze_step node st =
     (let node_type = node_get_type node
      in \<lparr>st_integrations = st_integrations st \<union> node_integrations node_type,
          st_node_types = insert node_type (st_node_types st),
          st_has_webhook =
            (if contains (lower node_type) ''webhook'' then True else st_has_webhook st),
          st_has_schedule =
            (if contains (lower node_type) ''schedule'' \<or> contains (lower node_type) ''cron''
             then True else st_has_schedule st),
          st_has_local_ai =
            (if node_type \<in> LOCAL_AI_NODES then True else st_has_local_ai st),
          st_credential_types = st_credential_types st \<union> node_credential_types node\<rparr>)"

record node_analysis =
  integrations :: "string list"
  node_types :: "string list"
  has_webhook :: bool
  has_schedule :: bool
  has_local_ai :: bool
  credential_types :: "string list"

definition analyze_nodes :: "wnode list \<Rightarrow> node_analysis" where
  "analyze_nodes nodes =
     (let st = fold analyze_step nodes init_state
      in \<lparr>integrations = sorted_list_of_set (st_integrations st),
          node_types = sorted_list_of_set (st_node_types st),
          has_webhook = st_has_webhook st,
          has_schedule = st_has_schedule st,
          has_local_ai = st_has_local_ai st,
          credential_types = sorted_list_of_set (st_credential_types st)\<rparr>)"

section \<open>Floating point\<close>

text \<open>
  Python's \<open>float\<close> is IEEE 754 binary64.  A finite float is modelled by the rational
  number it denotes; an arithmetic operation is the exact operation followed by
  rounding to the nearest float, ties to the even significand.  Overflow to infinity is
  not modelled: every value computed here lies between 0 and 1.
\<close>

fun bitlen :: "nat \<Rightarrow> nat" where
  \<comment> \<open>the number of binary digits of \<open>n\<close>\<close>
  "bitlen n = (if n = 0 then 0 else bitlen (n div 2) + 1)"

declare bitlen.simps [simp del]

definition pow2 :: "int \<Rightarrow> rat" where
  "pow2 k = (if 0 \<le> k then 2 ^ nat k else 1 / 2 ^ nat (- k))"

definition round_half_even :: "rat \<Rightarrow> int" where
  "round_half_even x =
     (let f = \<lfloor>x\<rfloor>; d = x - of_int f
      in if d < 1 / 2 then f
         else if 1 / 2 < d then f + 1
         else if even f then f else f + 1)"

definition binade :: "rat \<Rightarrow> int" where
  \<comment> \<open>for \<open>0 < x\<close>, the exponent \<open>e\<close> with \<open>2 ^ e \<le> x < 2 ^ (e + 1)\<close>\<close>
  "binade x =
     (if 1 \<le> x then int (bitlen (nat \<lfloor>x\<rfloor>)) - 1
      else (let k = int (bitlen (nat \<lfloor>1 / x\<rfloor>)) - 1
            in if x = pow2 (- k) then - k else - k - 1))"

definition fl :: "rat \<Rightarrow> rat" where
  \<comment> \<open>rounding to binary64: 53 significant bits, least exponent -1022\<close>
  "fl x =
     (if x = 0 then 0
      else (let e = max (binade \<bar>x\<bar>) (- 1022);
                ulp = pow2 (e - 52)
            in sgn x * of_int (round_half_even (\<bar>x\<bar> / ulp)) * ulp))"

definition fsub :: "rat \<Rightarrow> rat \<Rightarrow> rat" where
  \<comment> \<open>float subtraction\<close>
  "fsub a b = fl (a - b)"

definition py_round :: "rat \<Rightarrow> nat \<Rightarrow> rat" where
  \<comment> \<open>\<open>round(x, ndigits)\<close> on a float: the decimal with \<open>ndigits\<close> places nearest to the
      exact value of \<open>x\<close> (ties to even), read back as a float\<close>
  "py_round x ndigits =
     fl (of_int (round_half_even (x * 10 ^ ndigits)) / 10 ^ ndigits)"

section \<open>Requirements and compatibility (parser.py)\<close>

record credential_req =
  cred_type :: string
  cred_required :: bool
  cred_local :: bool
  cred_description :: "string option"

record requirements =
  req_credentials :: "credential_req list"
  req_services :: "string list"
  req_external_apis :: "string list"
  req_min_n8n_version :: string

definition is_local :: "string \<Rightarrow> bool" where
  \<comment> \<open>\<open>any(svc in cred_type for svc in self.LOCAL_SERVICES)\<close>\<close>
  "is_local ct = (\<exists>svc \<in> LOCAL_SERVICES. contains ct svc)"

text \<open>The loop of \<open>_extract_requirements\<close> over the credential types: the list
  \<open>credentials\<close> and the sets \<open>services\<close> and \<open>external_apis\<close>.\<close>

definition requirements_step ::
  "string \<Rightarrow> credential_req list \<times> string set \<times> string set
     \<Rightarrow> credential_req list \<times> string set \<times> string set" where
  "requirements_step ct acc =
     (case acc of (creds, services, external_apis) \<Rightarrow>
        (let loc = is_local ct;
             creds' = creds @ [\<lparr>cred_type = ct, cred_required = True, cred_local = loc,
                                cred_description = None\<rparr>]
         in if loc
            then (creds', services \<union> Set.filter (\<lambda>svc. contains ct svc) LOCAL_SERVICES,
                  external_apis)
            else (creds', services, insert ct external_apis)))"

definition extract_requirements :: "wnode list \<Rightarrow> node_analysis \<Rightarrow> requirements" where
  "extract_requirements nodes na =
     (case fold requirements_step (credential_types na) ([], {}, {}) of
        (creds, services, external_apis) \<Rightarrow>
          \<lparr>req_credentials = creds,
           req_services = sorted_list_of_set services,
           req_external_apis = sorted_list_of_set external_apis,
           req_min_n8n_version = ''1.0.0''\<rparr>)"

record compatibility =
  local_ai :: bool
  requires_external_api :: bool
  works_offline :: bool
  pozi_compatible :: bool
  status :: string
  compatibility_score :: rat

definition penalty_score :: "bool \<Rightarrow> bool \<Rightarrow> bool \<Rightarrow> rat" where
  \<comment> \<open>the score of \<open>_analyze_compatibility\<close> before rounding, from
      \<open>requires_external_api\<close>, \<open>local_ai\<close> and \<open>len(requirements['services']) == 0\<close>\<close>
  "penalty_score ext ai no_services =
     (let score = fl 1;
          score = (if ext then fsub score (fl (3 / 10)) else score);
          score = (if \<not> ai \<and> ext then fsub score (fl (3 / 10)) else score);
          score = (if no_services then fsub score (fl (2 / 10)) else score)
      in score)"

definition analyze_compatibility :: "requirements \<Rightarrow> node_analysis \<Rightarrow> compatibility" where
  "analyze_compatibility req na =
     (let ai = has_local_ai na;
          ext = (length (req_external_apis req) > 0);
          offline = (\<not> ext);
          score = penalty_score ext ai (length (req_services req) = 0);
          st = (if score \<ge> fl (8 / 10) then ''fully_compatible''
                else if score \<ge> fl (5 / 10) then ''partially_compatible''
                else if ext then ''requires_external''
                else ''incompatible'');
          compat = (score \<ge> fl (5 / 10))
      in \<lparr>local_ai = ai,
          requires_external_api = ext,
          works_offline = offline,
          pozi_compatible = compat,
          status = st,
          compatibility_score = py_round score 2\<rparr>)"

definition determine_difficulty :: "node_analysis \<Rightarrow> string" where
  "determine_difficulty na =
     (let node_count = length (node_types na)
      in if node_count \<le> 5 then ''beginner''
         else if node_count \<le> 15 then ''intermediate''
         else ''advanced'')"

section \<open>Classification (parser.py)\<close>

text \<open>
  The workflow document as \<open>json.load\<close> returns it, at the types the parser reads
  it: \<open>name\<close> is the value of the key when present; \<open>description\<close> tells an absent
  key (\<open>None\<close>) from a key whose value is \<open>null\<close> (\<open>Some None\<close>); \<open>nodes\<close> is the
  node list when the key is present; \<open>tags\<close> is the tag list when the key is present
  and holds a list (anything else is skipped by the \<open>isinstance\<close> test).
\<close>

datatype doc_tag =
    TagObject "string option"  \<comment> \<open>a tag object; the argument is its \<open>name\<close> key\<close>
  | TagString string           \<comment> \<open>a tag given as a plain string\<close>

record workflow_doc =
  doc_name :: "string option"
  doc_description :: "string option option"
  doc_nodes :: "wnode list option"
  doc_tags :: "doc_tag list option"

definition doc_get_nodes :: "workflow_doc \<Rightarrow> wnode list" where
  \<comment> \<open>\<open>workflow_data.get('nodes', [])\<close>\<close>
  "doc_get_nodes wd = (case doc_nodes wd of None \<Rightarrow> [] | Some ns \<Rightarrow> ns)"

definition node_content :: "wnode \<Rightarrow> string" where
  \<comment> \<open>\<open>node.get('parameters', {}).get('content', '')\<close>\<close>
  "node_content node =
     (case map_of (case parameters node of None \<Rightarrow> [] | Some ps \<Rightarrow> ps) ''content'' of
        None \<Rightarrow> ''''
      | Some c \<Rightarrow> c)"

fun find_sticky_note :: "wnode list \<Rightarrow> string option" where
  "find_sticky_note [] = None"
| "find_sticky_note (node # nodes) =
     (if ntype node = Some ''n8n-nodes-base.stickyNote''
      then (let content = node_content node
            in if content \<noteq> [] \<and> length content > 20 then Some (take 500 content)
               else find_sticky_note nodes)
      else find_sticky_note nodes)"

definition extract_description :: "workflow_doc \<Rightarrow> string option" where
  "extract_description wd =
     (case doc_description wd of
        Some d \<Rightarrow> d
      | None \<Rightarrow> find_sticky_note (doc_get_nodes wd))"

definition name_description_text :: "string \<Rightarrow> string option \<Rightarrow> string" where
  \<comment> \<open>\<open>f"{name} {description or ''}".lower()\<close>\<close>
  "name_description_text name description =
     lower (name @ '' '' @ (case description of None \<Rightarrow> '''' | Some d \<Rightarrow> d))"

definition categorize_workflow ::
  "string \<Rightarrow> string option \<Rightarrow> node_analysis \<Rightarrow> string \<times> string" where
  "categorize_workflow name description na =
     (let text = name_description_text name description;
          ints = set (integrations na)
      in if list_ex (\<lambda>term. contains text term)
              [''ai'', ''rag'', ''llm'', ''gpt'', ''agent'', ''langchain'']
         then (if contains text ''rag'' \<or> contains text ''retrieval''
               then (''AI & Machine Learning'', ''RAG & Document Processing'')
               else if contains text ''agent''
               then (''AI & Machine Learning'', ''AI Agents'')
               else (''AI & Machine Learning'', ''General AI''))
         else if list_ex (\<lambda>svc. svc \<in> ints)
              [''gmail'', ''email'', ''slack'', ''telegram'', ''discord'', ''whatsapp'']
         then (if ''gmail'' \<in> ints \<or> contains text ''email''
               then (''Communication & Messaging'', ''Email'')
               else if ''slack'' \<in> ints
               then (''Communication & Messaging'', ''Slack'')
               else if ''telegram'' \<in> ints
               then (''Communication & Messaging'', ''Telegram'')
               else (''Communication & Messaging'', ''General''))
         else if list_ex (\<lambda>term. contains text term)
              [''data'', ''analytics'', ''database'', ''sql'', ''etl'']
         then (''Data & Analytics'', ''Data Processing'')
         else if list_ex (\<lambda>term. contains text term)
              [''business'', ''productivity'', ''automation'', ''workflow'']
         then (''Business & Productivity'', ''Automation'')
         else (''Utilities & Tools'', ''General''))"

definition tag_name :: "doc_tag \<Rightarrow> string" where
  \<comment> \<open>\<open>tag.get('name', '') if isinstance(tag, dict) else str(tag)\<close>\<close>
  "tag_name tag =
     (case tag of
        TagObject n \<Rightarrow> (case n of None \<Rightarrow> '''' | Some s \<Rightarrow> s)
      | TagString s \<Rightarrow> s)"

definition tag_keywords :: "(string \<times> string list) list" where
  "tag_keywords =
     [(''ai'', [''ai'', ''artificial intelligence'', ''machine learning'']),
      (''rag'', [''rag'', ''retrieval'', ''augmented generation'']),
      (''automation'', [''automation'', ''automate'', ''automatic'']),
      (''email'', [''email'', ''gmail'', ''mail'']),
      (''chat'', [''chat'', ''messaging'', ''conversation'']),
      (''document'', [''document'', ''pdf'', ''file'']),
      (''data'', [''data'', ''database'', ''sql'']),
      (''local'', [''local'', ''offline'', ''self-hosted''])]"

definition extract_tags ::
  "workflow_doc \<Rightarrow> string \<Rightarrow> string option \<Rightarrow> node_analysis \<Rightarrow> string list" where
  "extract_tags wd name description na =
     (let existing = (case doc_tags wd of None \<Rightarrow> {} | Some ts \<Rightarrow> set (map tag_name ts));
          text = name_description_text name description;
          by_keyword =
            set (map fst
              (filter (\<lambda>(tag, keywords). list_ex (\<lambda>keyword. contains text keyword) keywords)
                 tag_keywords));
          by_integration = set (take 5 (integrations na))
      in take 10 (sorted_list_of_set (existing \<union> by_keyword \<union> by_integration)))"

definition determine_department :: "string \<Rightarrow> string list \<Rightarrow> string option" where
  "determine_department category tags =
     (if contains category ''AI'' then Some ''Engineering''
      else if contains category ''Communication'' then Some ''Operations''
      else if contains category ''Data'' then Some ''Analytics''
      else if contains category ''Business'' then Some ''Executive''
      else None)"

definition use_case_patterns :: "(string \<times> string list) list" where
  "use_case_patterns =
     [(''Document Q&A'', [''document'', ''q&a'', ''question'', ''answer'']),
      (''Email Automation'', [''email'', ''gmail'', ''automate'', ''respond'']),
      (''Data Processing'', [''data'', ''process'', ''transform'', ''etl'']),
      (''Chat Bot'', [''chat'', ''bot'', ''conversation'', ''assistant'']),
      (''Content Generation'', [''generate'', ''create'', ''content'', ''write'']),
      (''Research Assistant'', [''research'', ''analyze'', ''summarize''])]"

definition extract_use_cases :: "string \<Rightarrow> string option \<Rightarrow> string \<Rightarrow> string list" where
  "extract_use_cases name description category =
     (let text = name_description_text name description
      in take 3 (map fst
           (filter (\<lambda>(use_case, keywords).
                      length (filter (\<lambda>kw. contains text kw) keywords) \<ge> 2)
              use_case_patterns)))"

definition estimate_runtime :: "node_analysis \<Rightarrow> string" where
  "estimate_runtime na =
     (let node_count = length (node_types na)
      in if node_count \<le> 5 then ''< 1 minute''
         else if node_count \<le> 15 then ''1-5 minutes''
         else ''5+ minutes'')"

definition extract_author :: "string \<Rightarrow> string" where
  "extract_author source_repo =
     (if contains source_repo ''/''
      then (case split_on CHR ''/'' source_repo of [] \<Rightarrow> [] | p # ps \<Rightarrow> p)
      else source_repo)"

section \<open>The workflow record (parser.py)\<close>

text \<open>
  Integers are taken at the width of the INTEGER columns that hold them in the store:
  64 bits, read as signed.  Floats are the rationals they denote.
\<close>

type_synonym sql_int = "64 word"

record wf_metadata =
  md_node_count :: sql_int
  md_integrations :: "string list"
  md_node_types :: "string list"
  md_has_webhook :: bool
  md_has_schedule :: bool
  md_estimated_runtime :: "string option"

record wf_stats =
  stat_popularity_score :: sql_int
  stat_import_count :: sql_int
  stat_success_rate :: rat
  stat_avg_setup_time :: "string option"

record workflow =
  wf_id :: string
  wf_name :: string
  wf_description :: "string option"
  wf_category :: string
  wf_subcategory :: "string option"
  wf_difficulty :: string
  wf_author :: "string option"
  wf_source_repo :: string
  wf_source_url :: "string option"
  wf_json_path :: string
  wf_tags :: "string list"
  wf_department :: "string option"
  wf_use_cases :: "string list"
  wf_metadata :: wf_metadata
  wf_requirements :: requirements
  wf_compatibility :: compatibility
  wf_stats :: wf_stats
  wf_created_at :: string
  wf_updated_at :: string
  wf_last_synced :: "string option"

text \<open>
  What \<open>parse_workflow\<close> takes from outside: the \<open>Path\<close> object (its \<open>str()\<close> and
  its \<open>stem\<close>), the result of opening and loading the file (\<open>None\<close> when that raises),
  the fresh \<open>uuid4\<close>, and the clock: \<open>utcnow_iso n\<close> is what the \<open>n\<close>-th call of
  \<open>datetime.utcnow().isoformat()\<close> in this run returns.
\<close>

record path =
  path_str :: string
  path_stem :: string

record parse_env =
  file_json :: "workflow_doc option"
  fresh_uuid :: string
  utcnow_iso :: "nat \<Rightarrow> string"

definition parse_workflow :: "parse_env \<Rightarrow> path \<Rightarrow> string \<Rightarrow> workflow option" where
  "parse_workflow env json_path source_repo =
     (case file_json env of
        None \<Rightarrow> None
      | Some workflow_data \<Rightarrow>
          (let workflow_id = fresh_uuid env;
               name = (case doc_name workflow_data of
                         None \<Rightarrow> path_stem json_path | Some n \<Rightarrow> n);
               description = extract_description workflow_data;
               nodes = doc_get_nodes workflow_data;
               na = analyze_nodes nodes;
               cat = categorize_workflow name description na;
               category = fst cat;
               subcategory = snd cat;
               difficulty = determine_difficulty na;
               reqs = extract_requirements nodes na;
               compat = analyze_compatibility reqs na;
               tags = extract_tags workflow_data name description na
           in Some
             \<lparr>wf_id = workflow_id,
              wf_name = name,
              wf_description = description,
              wf_category = category,
              wf_subcategory = Some subcategory,
              wf_difficulty = difficulty,
              wf_author = Some (extract_author source_repo),
              wf_source_repo = source_repo,
              wf_source_url = None,
              wf_json_path = path_str json_path,
              wf_tags = tags,
              wf_department = determine_department category tags,
              wf_use_cases = extract_use_cases name description category,
              wf_metadata =
                \<lparr>md_node_count = of_nat (length nodes),
                 md_integrations = integrations na,
                 md_node_types = node_types na,
                 md_has_webhook = has_webhook na,
                 md_has_schedule = has_schedule na,
                 md_estimated_runtime = Some (estimate_runtime na)\<rparr>,
              wf_requirements = reqs,
              wf_compatibility = compat,
              wf_stats =
                \<lparr>stat_popularity_score = 0,
                 stat_import_count = 0,
                 stat_success_rate = fl 0,
                 stat_avg_setup_time = None\<rparr>,
              wf_created_at = utcnow_iso env 0,
              wf_updated_at = utcnow_iso env 1,
              wf_last_synced = None\<rparr>))"

section \<open>JSON text (json.dumps)\<close>

definition hex_digit :: "nat \<Rightarrow> char" where
  "hex_digit n = ''0123456789abcdef'' ! (n mod 16)"

definition json_escape_char :: "char \<Rightarrow> string" where
  \<comment> \<open>\<open>json.dumps\<close> with \<open>ensure_ascii\<close>: the quote, the backslash and the control
      characters with a short form take it; every other character outside
      space..tilde becomes \<open>\u00XX\<close>\<close>
  "json_escape_char c =
     (let n = (of_char c :: nat)
      in if c = CHR 0x22 then [CHR 0x5C, CHR 0x22]
         else if c = CHR 0x5C then [CHR 0x5C, CHR 0x5C]
         else if n = 8 then [CHR 0x5C, CHR ''b'']
         else if n = 12 then [CHR 0x5C, CHR ''f'']
         else if n = 10 then [CHR 0x5C, CHR ''n'']
         else if n = 13 then [CHR 0x5C, CHR ''r'']
         else if n = 9 then [CHR 0x5C, CHR ''t'']
         else if n < 32 \<or> 126 < n
         then [CHR 0x5C, CHR ''u'', CHR ''0'', CHR ''0'', hex_digit (n div 16), hex_digit n]
         else [c])"

definition json_string :: "string \<Rightarrow> string" where
  "json_string s = [CHR 0x22] @ concat (map json_escape_char s) @ [CHR 0x22]"

fun join :: "string \<Rightarrow> string list \<Rightarrow> string" where
  \<comment> \<open>\<open>sep.join(items)\<close>\<close>
  "join sep [] = []"
| "join sep [x] = x"
| "join sep (x # y # ys) = x @ sep @ join sep (y # ys)"

definition json_list :: "string list \<Rightarrow> string" where
  \<comment> \<open>a JSON array of items that are JSON text already\<close>
  "json_list items = ''['' @ join '', '' items @ '']''"

definition json_string_list :: "string list \<Rightarrow> string" where
  \<comment> \<open>\<open>json.dumps\<close> of a list of strings\<close>
  "json_string_list xs = json_list (map json_string xs)"

definition json_bool :: "bool \<Rightarrow> string" where
  "json_bool b = (if b then ''true'' else ''false'')"

definition json_credential :: "credential_req \<Rightarrow> string" where
  \<comment> \<open>\<open>json.dumps\<close> of one entry of \<open>requirements['credentials']\<close>\<close>
  "json_credential c =
     ''{'' @ json_string ''type'' @ '': '' @ json_string (cred_type c) @ '', ''
       @ json_string ''required'' @ '': '' @ json_bool (cred_required c) @ '', ''
       @ json_string ''local'' @ '': '' @ json_bool (cred_local c) @ '', ''
       @ json_string ''description'' @ '': ''
       @ (case cred_description c of None \<Rightarrow> ''null'' | Some d \<Rightarrow> json_string d)
       @ ''}''"

definition json_credential_list :: "credential_req list \<Rightarrow> string" where
  "json_credential_list cs = json_list (map json_credential cs)"

section \<open>The catalog store (database.py)\<close>

text \<open>
  A row of the table \<open>workflows\<close>, one field per column in the order of the schema.
  A column declared \<open>NOT NULL\<close>, and the primary key, holds a value; every other
  column holds a value or NULL (\<open>None\<close>).  TEXT is a string, INTEGER a 64-bit integer,
  REAL a float.  The table is the list of its rows in insertion order.
\<close>

record row =
  r_id :: string
  r_name :: string
  r_description :: "string option"
  r_category :: string
  r_subcategory :: "string option"
  r_difficulty :: string
  r_author :: "string option"
  r_source_repo :: string
  r_source_url :: "string option"
  r_json_path :: string
  r_tags :: "string option"
  r_department :: "string option"
  r_use_cases :: "string option"
  r_node_count :: "sql_int option"
  r_integrations :: "string option"
  r_node_types :: "string option"
  r_has_webhook :: "sql_int option"
  r_has_schedule :: "sql_int option"
  r_estimated_runtime :: "string option"
  r_credentials :: "string option"
  r_services :: "string option"
  r_external_apis :: "string option"
  r_min_n8n_version :: "string option"
  r_local_ai :: "sql_int option"
  r_requires_external_api :: "sql_int option"
  r_works_offline :: "sql_int option"
  r_pozi_compatible :: "sql_int option"
  r_compatibility_status :: "string option"
  r_compatibility_score :: "rat option"
  r_popularity_score :: "sql_int option"
  r_import_count :: "sql_int option"
  r_success_rate :: "rat option"
  r_avg_setup_time :: "string option"
  r_created_at :: string
  r_updated_at :: string
  r_last_synced :: "string option"

type_synonym table = "row list"

definition flag :: "bool \<Rightarrow> sql_int" where
  \<comment> \<open>\<open>1 if b else 0\<close>\<close>
  "flag b = (if b then 1 else 0)"

definition insert_values :: "workflow \<Rightarrow> row" where
  \<comment> \<open>the tuple of values \<open>insert_workflow\<close> binds to the INSERT statement\<close>
  "insert_values workflow =
     \<lparr>r_id = wf_id workflow,
      r_name = wf_name workflow,
      r_description = wf_description workflow,
      r_category = wf_category workflow,
      r_subcategory = wf_subcategory workflow,
      r_difficulty = wf_difficulty workflow,
      r_author = wf_author workflow,
      r_source_repo = wf_source_repo workflow,
      r_source_url = wf_source_url workflow,
      r_json_path = wf_json_path workflow,
      r_tags = Some (json_string_list (wf_tags workflow)),
      r_department = wf_department workflow,
      r_use_cases = Some (json_string_list (wf_use_cases workflow)),
      r_node_count = Some (md_node_count (wf_metadata workflow)),
      r_integrations = Some (json_string_list (md_integrations (wf_metadata workflow))),
      r_node_types = Some (json_string_list (md_node_types (wf_metadata workflow))),
      r_has_webhook = Some (flag (md_has_webhook (wf_metadata workflow))),
      r_has_schedule = Some (flag (md_has_schedule (wf_metadata workflow))),
      r_estimated_runtime = md_estimated_runtime (wf_metadata workflow),
      r_credentials =
        Some (json_credential_list (req_credentials (wf_requirements workflow))),
      r_services = Some (json_string_list (req_services (wf_requirements workflow))),
      r_external_apis =
        Some (json_string_list (req_external_apis (wf_requirements workflow))),
      r_min_n8n_version = Some (req_min_n8n_version (wf_requirements workflow)),
      r_local_ai = Some (flag (local_ai (wf_compatibility workflow))),
      r_requires_external_api =
        Some (flag (requires_external_api (wf_compatibility workflow))),
      r_works_offline = Some (flag (works_offline (wf_compatibility workflow))),
      r_pozi_compatible = Some (flag (pozi_compatible (wf_compatibility workflow))),
      r_compatibility_status = Some (status (wf_compatibility workflow)),
      r_compatibility_score = Some (compatibility_score (wf_compatibility workflow)),
      r_popularity_score = Some (stat_popularity_score (wf_stats workflow)),
      r_import_count = Some (stat_import_count (wf_stats workflow)),
      r_success_rate = Some (stat_success_rate (wf_stats workflow)),
      r_avg_setup_time = stat_avg_setup_time (wf_stats workflow),
      r_created_at = wf_created_at workflow,
      r_updated_at = wf_updated_at workflow,
      r_last_synced = wf_last_synced workflow\<rparr>"

definition insert_workflow :: "workflow \<Rightarrow> table \<Rightarrow> bool \<times> table" where
  \<comment> \<open>the INSERT fails on a row with the same primary key; the exception is caught and
      \<open>False\<close> returned\<close>
  "insert_workflow workflow db =
     (if list_ex (\<lambda>r. r_id r = wf_id workflow) db then (False, db)
      else (True, db @ [insert_values workflow]))"

definition get_workflow :: "string \<Rightarrow> table \<Rightarrow> row option" where
  \<comment> \<open>\<open>SELECT * FROM workflows WHERE id = ?\<close>, \<open>fetchone\<close>\<close>
  "get_workflow workflow_id db = find (\<lambda>r. r_id r = workflow_id) db"

definition sql_lower_char :: "char \<Rightarrow> char" where
  \<comment> \<open>the case folding of LIKE: the letters A-Z only\<close>
  "sql_lower_char c =
     (let n = (of_char c :: nat)
      in if 65 \<le> n \<and> n \<le> 90 then char_of (n + 32) else c)"

fun like :: "string \<Rightarrow> string \<Rightarrow> bool" where
  \<comment> \<open>\<open>text LIKE pattern\<close>, as \<open>like pattern text\<close>: \<open>%\<close> stands for any run of
      characters, \<open>_\<close> for any one character, any other character for itself up to the
      case of A-Z\<close>
  "like [] s = (s = [])"
| "like (p # ps) s =
     (if p = CHR ''%''
      then like ps s \<or> (case s of [] \<Rightarrow> False | c # cs \<Rightarrow> like (p # ps) cs)
      else (case s of
              [] \<Rightarrow> False
            | c # cs \<Rightarrow> (p = CHR ''_'' \<or> sql_lower_char p = sql_lower_char c) \<and> like ps cs))"

definition tag_pattern :: "string \<Rightarrow> string" where
  \<comment> \<open>\<open>f'%"{tag}"%'\<close>\<close>
  "tag_pattern tag = [CHR ''%'', CHR 0x22] @ tag @ [CHR 0x22, CHR ''%'']"

definition order_key :: "row \<Rightarrow> (nat \<times> int) \<times> string" where
  \<comment> \<open>\<open>ORDER BY popularity_score DESC, name ASC\<close>; NULL sorts after every value when
      descending.  Rows with equal keys keep the order of the table.\<close>
  "order_key r =
     ((case r_popularity_score r of None \<Rightarrow> (1, 0) | Some p \<Rightarrow> (0, - sint p)), r_name r)"

definition search_workflows ::
  "(string \<Rightarrow> row \<Rightarrow> bool) \<Rightarrow> string option \<Rightarrow> string option \<Rightarrow> string option \<Rightarrow> bool
     \<Rightarrow> string list option \<Rightarrow> sql_int \<Rightarrow> sql_int \<Rightarrow> table \<Rightarrow> row list" where
  \<comment> \<open>\<open>fts_match q r\<close>: row \<open>r\<close> is among the rows the full-text index returns for the
      MATCH query \<open>q\<close>; the index itself is outside this model\<close>
  "search_workflows fts_match query category difficulty local_ai_only tags limit offset db =
     (let conditions =
            (case query of
               None \<Rightarrow> []
             | Some q \<Rightarrow> if q \<noteq> [] then [\<lambda>r. fts_match q r] else [])
            @ (case category of
                 None \<Rightarrow> []
               | Some c \<Rightarrow> if c \<noteq> [] then [\<lambda>r. r_category r = c] else [])
            @ (case difficulty of
                 None \<Rightarrow> []
               | Some d \<Rightarrow> if d \<noteq> [] then [\<lambda>r. r_difficulty r = d] else [])
            @ (if local_ai_only then [\<lambda>r. r_local_ai r = Some 1] else [])
            @ (case tags of
                 None \<Rightarrow> []
               | Some ts \<Rightarrow>
                   map (\<lambda>tag. \<lambda>r. case r_tags r of
                                     None \<Rightarrow> False
                                   | Some text \<Rightarrow> like (tag_pattern tag) text) ts);
          selected = filter (\<lambda>r. list_all (\<lambda>cond. cond r) conditions) db;
          ordered = sort_key order_key selected;
          after_offset = (if sint offset \<le> 0 then ordered else drop (nat (sint offset)) ordered)
      in if sint limit < 0 then after_offset else take (nat (sint limit)) after_offset)"

datatype py_exception = OverflowError

definition sqlite_int_ok :: "int \<Rightarrow> bool" where
  \<comment> \<open>a Python \<open>int\<close> can be bound to a statement when it fits a signed 64-bit
      integer; binding any other raises \<open>OverflowError\<close>\<close>
  "sqlite_int_ok n = (- (2 ^ 63) \<le> n \<and> n < 2 ^ 63)"

definition update_workflow_stats ::
  "string \<Rightarrow> string \<Rightarrow> int option \<Rightarrow> rat option \<Rightarrow> table
     \<Rightarrow> (py_exception + unit) \<times> table" where
  \<comment> \<open>\<open>now\<close> is what \<open>datetime.utcnow().isoformat()\<close> returns when the update is built.
      The result is the outcome of the call and the table after it: the function has no
      \<open>return\<close> statement, so its value is \<open>None\<close> (\<open>Inr ()\<close>) whenever it returns; it has
      no \<open>try\<close>, so an \<open>import_count\<close> that cannot be bound leaves it as an exception,
      before the UPDATE runs.\<close>
  "update_workflow_stats now workflow_id import_count success_rate db =
     (if import_count = None \<and> success_rate = None then (Inr (), db)
      else if (case import_count of None \<Rightarrow> False | Some n \<Rightarrow> \<not> sqlite_int_ok n)
      then (Inl OverflowError, db)
      else (Inr (),
            map (\<lambda>r. if r_id r = workflow_id
                     then r\<lparr>r_import_count :=
                              (case import_count of
                                 None \<Rightarrow> r_import_count r
                               | Some n \<Rightarrow> Some (word_of_int n)),
                            r_success_rate :=
                              (case success_rate of
                                 None \<Rightarrow> r_success_rate r | Some x \<Rightarrow> Some x),
                            r_updated_at := now\<rparr>
                     else r) db))"

section \<open>Records as Python values\<close>

text \<open>
  The dictionary \<open>parse_workflow\<close> builds and \<open>insert_workflow\<close> takes, and the
  dictionary \<open>dict(row)\<close> that \<open>get_workflow\<close> returns, as Python values.
\<close>

datatype pyval =
    PyNone
  | PyBool bool
  | PyInt int
  | PyFloat rat
  | PyStr string
  | PyList "pyval list"
  | PyDict "(string \<times> pyval) list"

definition py_opt :: "('a \<Rightarrow> pyval) \<Rightarrow> 'a option \<Rightarrow> pyval" where
  "py_opt f x = (case x of None \<Rightarrow> PyNone | Some v \<Rightarrow> f v)"

definition py_strs :: "string list \<Rightarrow> pyval" where
  "py_strs xs = PyList (map PyStr xs)"

definition py_sql_int :: "sql_int \<Rightarrow> pyval" where
  "py_sql_int n = PyInt (sint n)"

definition py_credential :: "credential_req \<Rightarrow> pyval" where
  "py_credential c =
     PyDict [(''type'', PyStr (cred_type c)),
             (''required'', PyBool (cred_required c)),
             (''local'', PyBool (cred_local c)),
             (''description'', py_opt PyStr (cred_description c))]"

definition py_workflow :: "workflow \<Rightarrow> pyval" where
  "py_workflow w =
     PyDict [
       (''id'', PyStr (wf_id w)),
       (''name'', PyStr (wf_name w)),
       (''description'', py_opt PyStr (wf_description w)),
       (''category'', PyStr (wf_category w)),
       (''subcategory'', py_opt PyStr (wf_subcategory w)),
       (''difficulty'', PyStr (wf_difficulty w)),
       (''author'', py_opt PyStr (wf_author w)),
       (''source_repo'', PyStr (wf_source_repo w)),
       (''source_url'', py_opt PyStr (wf_source_url w)),
       (''json_path'', PyStr (wf_json_path w)),
       (''tags'', py_strs (wf_tags w)),
       (''department'', py_opt PyStr (wf_department w)),
       (''use_cases'', py_strs (wf_use_cases w)),
       (''metadata'', PyDict [
          (''node_count'', py_sql_int (md_node_count (wf_metadata w))),
          (''integrations'', py_strs (md_integrations (wf_metadata w))),
          (''node_types'', py_strs (md_node_types (wf_metadata w))),
          (''has_webhook'', PyBool (md_has_webhook (wf_metadata w))),
          (''has_schedule'', PyBool (md_has_schedule (wf_metadata w))),
          (''estimated_runtime'', py_opt PyStr (md_estimated_runtime (wf_metadata w)))]),
       (''requirements'', PyDict [
          (''credentials'', PyList (map py_credential (req_credentials (wf_requirements w)))),
          (''services'', py_strs (req_services (wf_requirements w))),
          (''external_apis'', py_strs (req_external_apis (wf_requirements w))),
          (''min_n8n_version'', PyStr (req_min_n8n_version (wf_requirements w)))]),
       (''compatibility'', PyDict [
          (''local_ai'', PyBool (local_ai (wf_compatibility w))),
          (''requires_external_api'', PyBool (requires_external_api (wf_compatibility w))),
          (''works_offline'', PyBool (works_offline (wf_compatibility w))),
          (''pozi_compatible'', PyBool (pozi_compatible (wf_compatibility w))),
          (''status'', PyStr (status (wf_compatibility w))),
          (''compatibility_score'', PyFloat (compatibility_score (wf_compatibility w)))]),
       (''stats'', PyDict [
          (''popularity_score'', py_sql_int (stat_popularity_score (wf_stats w))),
          (''import_count'', py_sql_int (stat_import_count (wf_stats w))),
          (''success_rate'', PyFloat (stat_success_rate (wf_stats w))),
          (''avg_setup_time'', py_opt PyStr (stat_avg_setup_time (wf_stats w)))]),
       (''created_at'', PyStr (wf_created_at w)),
       (''updated_at'', PyStr (wf_updated_at w)),
       (''last_synced'', py_opt PyStr (wf_last_synced w))]"

definition py_row :: "row \<Rightarrow> pyval" where
  "py_row r =
     PyDict [
       (''id'', PyStr (r_id r)),
       (''name'', PyStr (r_name r)),
       (''description'', py_opt PyStr (r_description r)),
       (''category'', PyStr (r_category r)),
       (''subcategory'', py_opt PyStr (r_subcategory r)),
       (''difficulty'', PyStr (r_difficulty r)),
       (''author'', py_opt PyStr (r_author r)),
       (''source_repo'', PyStr (r_source_repo r)),
       (''source_url'', py_opt PyStr (r_source_url r)),
       (''json_path'', PyStr (r_json_path r)),
       (''tags'', py_opt PyStr (r_tags r)),
       (''department'', py_opt PyStr (r_department r)),
       (''use_cases'', py_opt PyStr (r_use_cases r)),
       (''node_count'', py_opt py_sql_int (r_node_count r)),
       (''integrations'', py_opt PyStr (r_integrations r)),
       (''node_types'', py_opt PyStr (r_node_types r)),
       (''has_webhook'', py_opt py_sql_int (r_has_webhook r)),
       (''has_schedule'', py_opt py_sql_int (r_has_schedule r)),
       (''estimated_runtime'', py_opt PyStr (r_estimated_runtime r)),
       (''credentials'', py_opt PyStr (r_credentials r)),
       (''services'', py_opt PyStr (r_services r)),
       (''external_apis'', py_opt PyStr (r_external_apis r)),
       (''min_n8n_version'', py_opt PyStr (r_min_n8n_version r)),
       (''local_ai'', py_opt py_sql_int (r_local_ai r)),
       (''requires_external_api'', py_opt py_sql_int (r_requires_external_api r)),
       (''works_offline'', py_opt py_sql_int (r_works_offline r)),
       (''pozi_compatible'', py_opt py_sql_int (r_pozi_compatible r)),
       (''compatibility_status'', py_opt PyStr (r_compatibility_status r)),
       (''compatibility_score'', py_opt PyFloat (r_compatibility_score r)),
       (''popularity_score'', py_opt py_sql_int (r_popularity_score r)),
       (''import_count'', py_opt py_sql_int (r_import_count r)),
       (''success_rate'', py_opt PyFloat (r_success_rate r)),
       (''avg_setup_time'', py_opt PyStr (r_avg_setup_time r)),
       (''created_at'', PyStr (r_created_at r)),
       (''updated_at'', PyStr (r_updated_at r)),
       (''last_synced'', py_opt PyStr (r_last_synced r))]"

definition py_get :: "pyval \<Rightarrow> string \<Rightarrow> pyval option" where
  \<comment> \<open>the value under a key of a dictionary\<close>
  "py_get d key = (case d of PyDict items \<Rightarrow> map_of items key | _ \<Rightarrow> None)"

section \<open>Example inputs\<close>

definition sticky_node :: wnode where
  "sticky_node = \<lparr>ntype = Some ''n8n-nodes-base.stickyNote'', parameters = None,
     credentials = Some [(''gmailOAuth2'', ''1'')]\<rparr>"

definition gmail_node :: wnode where
  "gmail_node = \<lparr>ntype = Some ''n8n-nodes-base.gmail'', parameters = None,
     credentials = Some [(''gmailOAuth2'', ''1'')]\<rparr>"

definition typed_node :: "string \<Rightarrow> wnode" where
  "typed_node t = \<lparr>ntype = Some t, parameters = None, credentials = None\<rparr>"

definition three_types :: "wnode list" where
  "three_types = map typed_node [''a'', ''b'', ''c'', ''a'']"

definition ten_types :: "wnode list" where
  "ten_types = map typed_node
     [''a'', ''b'', ''c'', ''d'', ''e'', ''f'', ''g'', ''h'', ''i'', ''j'', ''b'']"

definition twenty_types :: "wnode list" where
  "twenty_types = map typed_node
     [''a'', ''b'', ''c'', ''d'', ''e'', ''f'', ''g'', ''h'', ''i'', ''j'',
      ''k'', ''l'', ''m'', ''n'', ''o'', ''p'', ''q'', ''r'', ''s'', ''t'']"

definition offline_requirements :: requirements where
  "offline_requirements = \<lparr>req_credentials = [], req_services = [], req_external_apis = [],
     req_min_n8n_version = ''1.0.0''\<rparr>"

definition empty_analysis :: node_analysis where
  "empty_analysis = \<lparr>integrations = [], node_types = [], has_webhook = False,
     has_schedule = False, has_local_ai = False, credential_types = []\<rparr>"

text \<open>A stored workflow with the single tag \<open>email\<close>: no credentials, score 0.8.\<close>

definition email_workflow :: workflow where
  "email_workflow =
     \<lparr>wf_id = ''7d9f2c1e-0b6a-4c55-9a57-3f1e2d4c5b6a'',
      wf_name = ''Mail digest'',
      wf_description = None,
      wf_category = ''Utilities & Tools'',
      wf_subcategory = Some ''General'',
      wf_difficulty = ''beginner'',
      wf_author = Some ''owner'',
      wf_source_repo = ''owner/repo'',
      wf_source_url = None,
      wf_json_path = ''data/workflows/repo/digest.json'',
      wf_tags = [''email''],
      wf_department = None,
      wf_use_cases = [],
      wf_metadata =
        \<lparr>md_node_count = 1, md_integrations = [''emailsend''],
         md_node_types = [''n8n-nodes-base.emailSend''], md_has_webhook = False,
         md_has_schedule = False, md_estimated_runtime = Some ''< 1 minute''\<rparr>,
      wf_requirements =
        \<lparr>req_credentials = [], req_services = [], req_external_apis = [],
         req_min_n8n_version = ''1.0.0''\<rparr>,
      wf_compatibility =
        \<lparr>local_ai = False, requires_external_api = False, works_offline = True,
         pozi_compatible = True, status = ''fully_compatible'',
         compatibility_score = 3602879701896397 / 4503599627370496\<rparr>,
      wf_stats =
        \<lparr>stat_popularity_score = 0, stat_import_count = 0, stat_success_rate = 0,
         stat_avg_setup_time = None\<rparr>,
      wf_created_at = ''2024-05-01T10:00:00.000001'',
      wf_updated_at = ''2024-05-01T10:00:00.000004'',
      wf_last_synced = None\<rparr>"

definition no_fts :: "string \<Rightarrow> row \<Rightarrow> bool" where
  \<comment> \<open>a full-text index that is never consulted\<close>
  "no_fts q r = False"

definition empty_doc :: workflow_doc where
  \<comment> \<open>the document \<open>{}\<close>\<close>
  "empty_doc = \<lparr>doc_name = None, doc_description = None, doc_nodes = None, doc_tags = None\<rparr>"

definition two_instants_env :: parse_env where
  \<comment> \<open>a run in which the clock advances by a microsecond between two readings\<close>
  "two_instants_env =
     \<lparr>file_json = Some empty_doc,
      fresh_uuid = ''7d9f2c1e-0b6a-4c55-9a57-3f1e2d4c5b6a'',
      utcnow_iso = (\<lambda>n. if n = 0 then ''2024-05-01T10:00:00.000001''
                          else ''2024-05-01T10:00:00.000002'')\<rparr>"

definition digest_path :: path where
  "digest_path = \<lparr>path_str = ''data/workflows/repo/digest.json'', path_stem = ''digest''\<rparr>"

section \<open>The float model\<close>

text \<open>
  The exponent that \<open>binade\<close> computes is the binary exponent of its argument, and
  \<open>round_half_even\<close> returns a nearest integer: \<open>fl\<close> rounds a number in the normal
  range to a multiple of its unit in the last place at distance at most half a unit.
\<close>

lemma bitlen_bounds: "0 < n \<Longrightarrow> 2 ^ (bitlen n - 1) \<le> n \<and> n < 2 ^ bitlen n"
proof (induction n rule: bitlen.induct)
  case (1 n)
  show ?case
  proof (cases "n div 2 = 0")
    case True
    with 1(2) have "n = 1" by (simp add: div_eq_0_iff)
    then show ?thesis by (simp add: bitlen.simps)
  next
    case False
    then have pos: "0 < n div 2" by simp
    from 1(1) [OF _ pos] 1(2)
    have ih: "2 ^ (bitlen (n div 2) - 1) \<le> n div 2" "n div 2 < 2 ^ bitlen (n div 2)"
      by auto
    have bl: "bitlen n = bitlen (n div 2) + 1"
      using 1(2) by (subst bitlen.simps) simp
    have b1: "0 < bitlen (n div 2)"
      using pos by (subst bitlen.simps) simp
    have "2 ^ (bitlen n - 1) = 2 * 2 ^ (bitlen (n div 2) - 1)"
      using b1 bl by (cases "bitlen (n div 2)") simp_all
    also have "\<dots> \<le> 2 * (n div 2)" using ih(1) by simp
    also have "\<dots> \<le> n" by simp
    finally have lo: "2 ^ (bitlen n - 1) \<le> n" .
    have "n < 2 * (n div 2) + 2" by arith
    also have "\<dots> \<le> 2 * 2 ^ bitlen (n div 2)" using ih(2) by simp
    also have "\<dots> = 2 ^ bitlen n" using bl by simp
    finally show ?thesis using lo by simp
  qed
qed

lemma pow2_pos: "0 < pow2 k"
  by (simp add: pow2_def)

lemma pow2_Suc: "pow2 (k + 1) = 2 * pow2 k"
proof (cases "0 \<le> k")
  case True
  then show ?thesis by (simp add: pow2_def nat_add_distrib)
next
  case False
  then have "nat (- k) = Suc (nat (- (k + 1)))" by simp
  then show ?thesis using False by (simp add: pow2_def)
qed

lemma pow2_of_nat: "pow2 (int n) = 2 ^ n"
  by (simp add: pow2_def)

lemma pow2_neg_nat: "pow2 (- int n) = 1 / 2 ^ n"
  by (cases n) (simp_all add: pow2_def nat_add_distrib)

lemma binade_bounds:
  assumes "0 < x"
  shows "pow2 (binade x) \<le> x \<and> x < pow2 (binade x + 1)"
proof (cases "1 \<le> x")
  case True
  define n where "n = nat \<lfloor>x\<rfloor>"
  have n1: "0 < n" using True by (simp add: n_def)
  have nx: "rat_of_nat n \<le> x" "x < rat_of_nat n + 1"
    using True floor_correct [of x] unfolding n_def by (simp_all add: of_nat_nat)
  from bitlen_bounds [OF n1] have b: "2 ^ (bitlen n - 1) \<le> n" "n < 2 ^ bitlen n" by auto
  have bp: "0 < bitlen n" using n1 by (subst bitlen.simps) simp
  have e: "binade x = int (bitlen n - 1)"
    using True bp by (simp add: binade_def n_def of_nat_diff)
  have "pow2 (binade x) = 2 ^ (bitlen n - 1)" by (simp add: e pow2_of_nat)
  also have "\<dots> \<le> rat_of_nat n" using b(1) by (metis of_nat_le_iff of_nat_numeral of_nat_power)
  finally have lo: "pow2 (binade x) \<le> x" using nx(1) by simp
  have "binade x + 1 = int (bitlen n)" using e bp by simp
  then have "pow2 (binade x + 1) = 2 ^ bitlen n" by (simp add: pow2_of_nat)
  moreover have "rat_of_nat n + 1 \<le> 2 ^ bitlen n"
  proof -
    have "n + 1 \<le> 2 ^ bitlen n" using b(2) by simp
    then have le: "rat_of_nat (n + 1) \<le> rat_of_nat (2 ^ bitlen n)" by (simp only: of_nat_le_iff)
    have "rat_of_nat n + 1 = rat_of_nat (n + 1)" by simp
    also note le
    also have "rat_of_nat (2 ^ bitlen n) = 2 ^ bitlen n" by simp
    finally show ?thesis .
  qed
  ultimately have "x < pow2 (binade x + 1)" using nx(2) by simp
  with lo show ?thesis by simp
next
  case False
  then have x1: "x < 1" by simp
  define y where "y = 1 / x"
  have y1: "1 < y" using assms x1 by (simp add: y_def)
  define n where "n = nat \<lfloor>y\<rfloor>"
  have n1: "0 < n" using y1 by (simp add: n_def)
  have ny: "rat_of_nat n \<le> y" "y < rat_of_nat n + 1"
    using y1 floor_correct [of y] unfolding n_def by (simp_all add: of_nat_nat)
  from bitlen_bounds [OF n1] have b: "2 ^ (bitlen n - 1) \<le> n" "n < 2 ^ bitlen n" by auto
  have bp: "0 < bitlen n" using n1 by (subst bitlen.simps) simp
  define k where "k = bitlen n - 1"
  have kk: "bitlen n = Suc k" using bp by (simp add: k_def)
  have ylo: "2 ^ k \<le> y"
  proof -
    have "(2::rat) ^ k = rat_of_nat (2 ^ k)" by simp
    also have "\<dots> \<le> rat_of_nat n" using b(1) unfolding k_def by (simp only: of_nat_le_iff)
    also note ny(1)
    finally show ?thesis .
  qed
  have yhi: "y < 2 ^ Suc k"
  proof -
    have "n + 1 \<le> 2 ^ Suc k" using b(2) kk by simp
    then have le: "rat_of_nat (n + 1) \<le> rat_of_nat (2 ^ Suc k)" by (simp only: of_nat_le_iff)
    note ny(2)
    also have "rat_of_nat n + 1 = rat_of_nat (n + 1)" by simp
    also note le
    also have "rat_of_nat (2 ^ Suc k) = 2 ^ Suc k" by simp
    finally show ?thesis .
  qed
  have xhi: "x \<le> 1 / 2 ^ k"
    using ylo assms unfolding y_def by (simp add: field_simps)
  have xlo: "1 / 2 ^ Suc k < x"
    using yhi assms unfolding y_def by (simp add: field_simps)
  have kdef: "int (bitlen (nat \<lfloor>1 / x\<rfloor>)) - 1 = int k"
    using kk by (simp add: n_def y_def)
  show ?thesis
  proof (cases "x = pow2 (- int k)")
    case True
    then have e: "binade x = - int k"
      using False kdef by (simp add: binade_def Let_def)
    have "pow2 (binade x + 1) = 2 * pow2 (- int k)"
      unfolding e using pow2_Suc [of "- int k"] by simp
    then show ?thesis using True e pow2_pos [of "- int k"] by simp
  next
    case neq: False
    then have e: "binade x = - int k - 1"
      using False kdef by (simp add: binade_def Let_def)
    have "- int k - 1 = - int (Suc k)" by simp
    then have p1: "pow2 (binade x) = 1 / 2 ^ Suc k" unfolding e by (simp only: pow2_neg_nat)
    have p2: "pow2 (binade x + 1) = 1 / 2 ^ k" unfolding e by (simp add: pow2_neg_nat)
    have "x \<noteq> 1 / 2 ^ k" using neq by (simp add: pow2_neg_nat)
    then show ?thesis using p1 p2 xlo xhi by simp
  qed
qed

lemma round_half_even_nearest: "\<bar>rat_of_int (round_half_even x) - x\<bar> \<le> 1 / 2"
  using floor_correct [of x]
  by (auto simp: round_half_even_def Let_def abs_le_iff)

lemma fl_nearest:
  assumes "0 < x" and "- 1022 \<le> binade x"
  shows "\<bar>fl x - x\<bar> \<le> pow2 (binade x - 52) / 2"
proof -
  define u where "u = pow2 (binade x - 52)"
  have u: "0 < u" by (simp add: u_def pow2_pos)
  have f: "fl x = rat_of_int (round_half_even (x / u)) * u"
    using assms by (simp add: fl_def Let_def u_def max_def)
  have "fl x - x = (rat_of_int (round_half_even (x / u)) - x / u) * u"
    using u by (simp add: f field_simps)
  then have "\<bar>fl x - x\<bar> = \<bar>rat_of_int (round_half_even (x / u)) - x / u\<bar> * u"
    using u by (simp add: abs_mult)
  also have "\<dots> \<le> (1 / 2) * u"
    using round_half_even_nearest [of "x / u"] u by (intro mult_right_mono) simp_all
  finally show ?thesis by (simp add: u_def)
qed

section \<open>Floating-point values of the score\<close>

lemma floor_numeral_div: "\<lfloor>numeral a / numeral b :: rat\<rfloor> = numeral a div numeral b"
  using floor_divide_of_int_eq [of "numeral a" "numeral b", where ?'a = rat] by simp

lemma floor_one_div: "\<lfloor>1 / numeral b :: rat\<rfloor> = 1 div numeral b"
  using floor_divide_of_int_eq [of 1 "numeral b", where ?'a = rat] by simp

lemmas fl_eval = fl_def binade_def bitlen.simps pow2_def round_half_even_def Let_def
  floor_numeral_div floor_one_div fsub_def py_round_def

text \<open>The float literals of the scorer, as the exact rationals they denote.\<close>

lemma fl_one: "fl 1 = 1"
  by (simp add: fl_eval)

lemma fl_02: "fl (1 / 5) = 3602879701896397 / 18014398509481984"
  by (simp add: fl_eval)

lemma fl_03: "fl (3 / 10) = 5404319552844595 / 18014398509481984"
  by (simp add: fl_eval)

lemma fl_04: "fl (2 / 5) = 3602879701896397 / 9007199254740992"
  by (simp add: fl_eval)

lemma fl_05: "fl (1 / 2) = 1 / 2"
  by (simp add: fl_eval)

lemma fl_08: "fl (4 / 5) = 3602879701896397 / 4503599627370496"
  by (simp add: fl_eval)

text \<open>The subtractions the scorer can perform: \<open>1.0 - 0.3\<close>, \<open>1.0 - 0.2\<close>,
  \<open>0.7 - 0.3\<close>, \<open>0.7 - 0.2\<close> and \<open>0.39999999999999997 - 0.2\<close>.\<close>

lemma fsub_1_03:
  "fsub 1 (5404319552844595 / 18014398509481984) = 3152519739159347 / 4503599627370496"
  by (simp add: fl_eval)

lemma fsub_1_02:
  "fsub 1 (3602879701896397 / 18014398509481984) = 3602879701896397 / 4503599627370496"
  by (simp add: fl_eval)

lemma fsub_07_03:
  "fsub (3152519739159347 / 4503599627370496) (5404319552844595 / 18014398509481984)
     = 7205759403792793 / 18014398509481984"
  by (simp add: fl_eval)

lemma fsub_07_02:
  "fsub (3152519739159347 / 4503599627370496) (3602879701896397 / 18014398509481984)
     = 9007199254740991 / 18014398509481984"
  by (simp add: fl_eval)

lemma fsub_04_02:
  "fsub (7205759403792793 / 18014398509481984) (3602879701896397 / 18014398509481984)
     = 900719925474099 / 4503599627370496"
  by (simp add: fl_eval)

lemmas fsub_steps = fl_one fl_02 fl_03 fsub_1_03 fsub_1_02 fsub_07_03 fsub_07_02 fsub_04_02

text \<open>The six scores: 1.0, 0.8, 0.7, 0.49999999999999994, 0.39999999999999997 and
  0.19999999999999996.\<close>

lemma penalty_FFF: "penalty_score False ai False = 1"
  by (simp add: penalty_score_def fsub_steps)

lemma penalty_FFT: "penalty_score False ai True = 3602879701896397 / 4503599627370496"
  by (simp add: penalty_score_def fsub_steps)

lemma penalty_TTF: "penalty_score True True False = 3152519739159347 / 4503599627370496"
  by (simp add: penalty_score_def fsub_steps)

lemma penalty_TTT: "penalty_score True True True = 9007199254740991 / 18014398509481984"
  by (simp add: penalty_score_def fsub_steps)

lemma penalty_TFF: "penalty_score True False False = 7205759403792793 / 18014398509481984"
  by (simp add: penalty_score_def fsub_steps)

lemma penalty_TFT: "penalty_score True False True = 900719925474099 / 4503599627370496"
  by (simp add: penalty_score_def fsub_steps)

lemmas penalty_values = penalty_FFF penalty_FFT penalty_TTF penalty_TTT penalty_TFF penalty_TFT

text \<open>Their roundings to two decimals: 1.0, 0.8, 0.7, 0.5, 0.4 and 0.2.\<close>

lemma round_1: "py_round 1 2 = 1"
  by (simp add: fl_eval)

lemma round_08:
  "py_round (3602879701896397 / 4503599627370496) 2 = 3602879701896397 / 4503599627370496"
  by (simp add: fl_eval)

lemma round_07:
  "py_round (3152519739159347 / 4503599627370496) 2 = 3152519739159347 / 4503599627370496"
  by (simp add: fl_eval)

lemma round_05: "py_round (9007199254740991 / 18014398509481984) 2 = 1 / 2"
  by (simp add: fl_eval)

lemma round_04:
  "py_round (7205759403792793 / 18014398509481984) 2 = 3602879701896397 / 9007199254740992"
  by (simp add: fl_eval)

lemma round_02:
  "py_round (900719925474099 / 4503599627370496) 2 = 3602879701896397 / 18014398509481984"
  by (simp add: fl_eval)

lemmas round_values = round_1 round_08 round_07 round_05 round_04 round_02

lemmas fl_literals = fl_02 fl_04 fl_05 fl_08

section \<open>The node analyzer\<close>

lemma lower_char_idem: "lower_char (lower_char c) = lower_char c"
  unfolding lower_char_def Let_def by auto

lemma lower_idem: "lower (lower s) = lower s"
  by (simp add: lower_def lower_char_idem)

lemma fold_analyze_node_types:
  "st_node_types (fold analyze_step nodes st) = st_node_types st \<union> node_get_type ` set nodes"
  by (induction nodes arbitrary: st) (auto simp: analyze_step_def Let_def)

lemma fold_analyze_integrations:
  "st_integrations (fold analyze_step nodes st) =
     st_integrations st \<union> (\<Union>n \<in> set nodes. node_integrations (node_get_type n))"
  by (induction nodes arbitrary: st) (auto simp: analyze_step_def Let_def)

lemma fold_analyze_credential_types:
  "st_credential_types (fold analyze_step nodes st) =
     st_credential_types st \<union> (\<Union>n \<in> set nodes. node_credential_types n)"
  by (induction nodes arbitrary: st) (auto simp: analyze_step_def Let_def)

lemma finite_node_integrations: "finite (node_integrations t)"
  by (simp add: node_integrations_def Let_def)

lemma finite_node_credential_types: "finite (node_credential_types n)"
  by (cases "credentials n") (simp_all add: node_credential_types_def)

lemma set_integrations:
  "set (integrations (analyze_nodes nodes)) =
     (\<Union>n \<in> set nodes. node_integrations (node_get_type n))"
  by (simp add: analyze_nodes_def Let_def fold_analyze_integrations init_state_def
      finite_node_integrations)

lemma set_node_types:
  "set (node_types (analyze_nodes nodes)) = node_get_type ` set nodes"
  by (simp add: analyze_nodes_def Let_def fold_analyze_node_types init_state_def)

lemma set_credential_types:
  "set (credential_types (analyze_nodes nodes)) =
     (\<Union>n \<in> set nodes. node_credential_types n)"
  by (simp add: analyze_nodes_def Let_def fold_analyze_credential_types init_state_def
      finite_node_credential_types)

lemma node_integrations_lower: "x \<in> node_integrations t \<Longrightarrow> lower x = x"
  by (auto simp: node_integrations_def Let_def lower_idem split: if_splits)

lemma node_credential_types_lower: "x \<in> node_credential_types n \<Longrightarrow> lower x = x"
  by (auto simp: node_credential_types_def Let_def lower_idem)

text \<open>
  Claim C3, as stated, fails: \<open>_analyze_nodes\<close> adds each node type to \<open>node_types\<close>
  as it is, so the type \<open>n8n-nodes-base.stickyNote\<close> of a one-node workflow is an
  element of \<open>node_types\<close> that is not lower-cased.
\<close>

theorem node_types_keep_case:
  "''n8n-nodes-base.stickyNote'' \<in> set (node_types (analyze_nodes [sticky_node])) \<and>
   lower ''n8n-nodes-base.stickyNote'' \<noteq> ''n8n-nodes-base.stickyNote''"
  by code_simp

text \<open>
  Claim C3, amended: for every list of nodes, every element of \<open>integrations\<close> and of
  \<open>credential_types\<close> is lower-cased (it is its own \<open>lower()\<close>), and \<open>node_types\<close>
  holds exactly the nodes' type strings, unchanged.
\<close>

theorem analyzer_lower_cased:
  "(\<forall>x \<in> set (integrations (analyze_nodes nodes)). lower x = x) \<and>
   (\<forall>x \<in> set (credential_types (analyze_nodes nodes)). lower x = x) \<and>
   set (node_types (analyze_nodes nodes)) = node_get_type ` set nodes"
  by (auto simp: set_integrations set_credential_types set_node_types
      dest: node_integrations_lower node_credential_types_lower)

text \<open>Witness for C3: the one-node workflow whose node has type
  \<open>n8n-nodes-base.stickyNote\<close> and a credential \<open>gmailOAuth2\<close>.\<close>

theorem analyzer_lower_cased_witness:
  "''stickynote'' \<in> set (integrations (analyze_nodes [sticky_node])) \<and>
   lower ''stickynote'' = ''stickynote'' \<and>
   ''gmailoauth2'' \<in> set (credential_types (analyze_nodes [sticky_node])) \<and>
   lower ''gmailoauth2'' = ''gmailoauth2''"
  using analyzer_lower_cased [of "[sticky_node]"] by code_simp

text \<open>
  Claim C7: for every list of nodes, the lists \<open>integrations\<close>, \<open>node_types\<close> and
  \<open>credential_types\<close> of the analysis are sorted ascending and hold no element twice.
\<close>

theorem analyzer_sorted_distinct:
  "sorted (integrations (analyze_nodes nodes)) \<and> distinct (integrations (analyze_nodes nodes)) \<and>
   sorted (node_types (analyze_nodes nodes)) \<and> distinct (node_types (analyze_nodes nodes)) \<and>
   sorted (credential_types (analyze_nodes nodes)) \<and>
   distinct (credential_types (analyze_nodes nodes))"
  by (simp add: analyze_nodes_def Let_def)

text \<open>
  Claim C6: the difficulty of a workflow is a function of the number of distinct node
  types alone: at most 5 gives beginner, 6 to 15 intermediate, more than 15 advanced.
\<close>

theorem difficulty_by_type_count:
  "determine_difficulty (analyze_nodes nodes) =
     (let count = card (node_get_type ` set nodes)
      in if count \<le> 5 then ''beginner''
         else if count \<le> 15 then ''intermediate''
         else ''advanced'')"
  by (simp add: determine_difficulty_def Let_def analyze_nodes_def fold_analyze_node_types
      init_state_def)

lemma card_three_types: "card (node_get_type ` set three_types) = 3"
  by code_simp

lemma card_ten_types: "card (node_get_type ` set ten_types) = 10"
  by code_simp

lemma card_twenty_types: "card (node_get_type ` set twenty_types) = 20"
  by code_simp

text \<open>Witness for C6: workflows with 3, 10 and 20 distinct node types (the first two
  repeat a type).\<close>

theorem difficulty_by_type_count_witness:
  "determine_difficulty (analyze_nodes three_types) = ''beginner'' \<and>
   determine_difficulty (analyze_nodes ten_types) = ''intermediate'' \<and>
   determine_difficulty (analyze_nodes twenty_types) = ''advanced''"
  using difficulty_by_type_count [of three_types] difficulty_by_type_count [of ten_types]
    difficulty_by_type_count [of twenty_types]
  by (simp add: card_three_types card_ten_types card_twenty_types)

section \<open>The compatibility scorer\<close>

lemma extract_requirements_single_external:
  assumes "credential_types na = [c]" and "\<not> is_local c"
  shows "req_external_apis (extract_requirements nodes na) = [c]"
    and "req_services (extract_requirements nodes na) = []"
  using assms by (simp_all add: extract_requirements_def requirements_step_def Let_def)

lemma is_local_gmail: "\<not> is_local ''gmailoauth2''"
  by code_simp

lemma analyze_gmail:
  "analyze_nodes [gmail_node] =
     \<lparr>integrations = [''gmail''], node_types = [''n8n-nodes-base.gmail''],
      has_webhook = False, has_schedule = False, has_local_ai = False,
      credential_types = [''gmailoauth2'']\<rparr>"
  by code_simp

text \<open>
  Claim C1, as stated, fails: a workflow with the single credential type
  \<open>gmailoauth2\<close> (no local service name in it) and no local-AI node has no local
  service either, so the third penalty applies too and the score is 0.2, not 0.4.
\<close>

theorem single_external_score_not_04:
  "credential_types (analyze_nodes [gmail_node]) = [''gmailoauth2'']
   \<and> \<not> is_local ''gmailoauth2''
   \<and> \<not> has_local_ai (analyze_nodes [gmail_node])
   \<and> compatibility_score
         (analyze_compatibility (extract_requirements [gmail_node] (analyze_nodes [gmail_node]))
            (analyze_nodes [gmail_node]))
       \<noteq> fl (4 / 10)"
  using is_local_gmail
  by (simp add: analyze_gmail analyze_compatibility_def Let_def
      extract_requirements_single_external penalty_values round_values fl_literals)

text \<open>
  Claim C1, amended: for every workflow whose nodes yield exactly one credential type,
  one that contains no local-service name, and no local-AI node type, the scorer returns
  \<open>compatibility_score = 0.2\<close>, \<open>status = requires_external\<close> and
  \<open>pozi_compatible = false\<close>.
\<close>

theorem single_external_score:
  assumes "credential_types (analyze_nodes nodes) = [c]"
    and "\<not> is_local c"
    and "\<not> has_local_ai (analyze_nodes nodes)"
  shows "compatibility_score
           (analyze_compatibility (extract_requirements nodes (analyze_nodes nodes))
              (analyze_nodes nodes))
         = fl (2 / 10)
       \<and> status
           (analyze_compatibility (extract_requirements nodes (analyze_nodes nodes))
              (analyze_nodes nodes))
         = ''requires_external''
       \<and> \<not> pozi_compatible
           (analyze_compatibility (extract_requirements nodes (analyze_nodes nodes))
              (analyze_nodes nodes))"
  using assms
  by (simp add: analyze_compatibility_def Let_def extract_requirements_single_external
      penalty_values round_values fl_literals)

text \<open>Witness for C1: the workflow of one Gmail node with a \<open>gmailOAuth2\<close>
  credential.\<close>

theorem single_external_score_witness:
  "credential_types (analyze_nodes [gmail_node]) = [''gmailoauth2'']
   \<and> \<not> is_local ''gmailoauth2''
   \<and> \<not> has_local_ai (analyze_nodes [gmail_node])
   \<and> compatibility_score
         (analyze_compatibility (extract_requirements [gmail_node] (analyze_nodes [gmail_node]))
            (analyze_nodes [gmail_node]))
       = fl (2 / 10)
   \<and> status
         (analyze_compatibility (extract_requirements [gmail_node] (analyze_nodes [gmail_node]))
            (analyze_nodes [gmail_node]))
       = ''requires_external''
   \<and> \<not> pozi_compatible
         (analyze_compatibility (extract_requirements [gmail_node] (analyze_nodes [gmail_node]))
            (analyze_nodes [gmail_node]))"
proof -
  have h1: "credential_types (analyze_nodes [gmail_node]) = [''gmailoauth2'']"
    by (simp add: analyze_gmail)
  have h3: "\<not> has_local_ai (analyze_nodes [gmail_node])"
    by (simp add: analyze_gmail)
  show ?thesis
    using single_external_score [OF h1 is_local_gmail h3] h1 h3 is_local_gmail by simp
qed

text \<open>
  Claim C2, as stated, fails: no combination of the three penalties gives a score below
  0.  The eight combinations of (external API required, local AI present, no local
  service) are all the inputs of the formula; none of the eight scores is negative, the
  one that stacks all three penalties included.
\<close>

theorem no_score_below_zero:
  "\<not> penalty_score True False True < 0 \<and> \<not> penalty_score True False False < 0
   \<and> \<not> penalty_score True True True < 0 \<and> \<not> penalty_score True True False < 0
   \<and> \<not> penalty_score False False True < 0 \<and> \<not> penalty_score False False False < 0
   \<and> \<not> penalty_score False True True < 0 \<and> \<not> penalty_score False True False < 0"
  by (simp add: penalty_values)

text \<open>
  Claim C2, amended: stacking all three penalties yields the least score there is,
  0.19999999999999996 (0.2 once rounded); every score is at least that, hence above 0,
  before rounding and as returned.
\<close>

theorem least_score:
  "penalty_score True False True = 900719925474099 / 4503599627370496
   \<and> penalty_score True False True \<le> penalty_score ext ai no_services
   \<and> 0 < penalty_score ext ai no_services
   \<and> fl (2 / 10) \<le> compatibility_score (analyze_compatibility req na)
   \<and> 0 < compatibility_score (analyze_compatibility req na)"
proof (intro conjI)
  show "penalty_score True False True = 900719925474099 / 4503599627370496"
    by (simp add: penalty_values)
  show "penalty_score True False True \<le> penalty_score ext ai no_services"
    by (cases ext; cases ai; cases no_services) (simp_all add: penalty_values)
  show "0 < penalty_score ext ai no_services"
    by (cases ext; cases ai; cases no_services) (simp_all add: penalty_values)
  show "fl (2 / 10) \<le> compatibility_score (analyze_compatibility req na)"
    by (cases "has_local_ai na"; cases "req_external_apis req = []";
        cases "req_services req = []")
      (simp_all add: analyze_compatibility_def Let_def penalty_values round_values fl_literals)
  show "0 < compatibility_score (analyze_compatibility req na)"
    by (cases "has_local_ai na"; cases "req_external_apis req = []";
        cases "req_services req = []")
      (simp_all add: analyze_compatibility_def Let_def penalty_values round_values fl_literals)
qed

text \<open>
  Claim C9: the compatibility analysis never returns the status \<open>incompatible\<close>.
  When no external API is required the score is at least 0.8 (before rounding and as
  returned), and a score below 0.5 occurs only when an external API is required.
\<close>

theorem status_never_incompatible:
  "status (analyze_compatibility req na) \<noteq> ''incompatible''
   \<and> (\<not> requires_external_api (analyze_compatibility req na)
        \<longrightarrow> fl (8 / 10) \<le> penalty_score False (has_local_ai na) (length (req_services req) = 0)
          \<and> fl (8 / 10) \<le> compatibility_score (analyze_compatibility req na))
   \<and> (penalty_score ext ai no_services < fl (5 / 10) \<longrightarrow> ext)"
proof (intro conjI)
  show "status (analyze_compatibility req na) \<noteq> ''incompatible''"
    by (cases "has_local_ai na"; cases "req_external_apis req = []";
        cases "req_services req = []")
      (simp_all add: analyze_compatibility_def Let_def penalty_values round_values fl_literals)
  show "\<not> requires_external_api (analyze_compatibility req na)
        \<longrightarrow> fl (8 / 10) \<le> penalty_score False (has_local_ai na) (length (req_services req) = 0)
          \<and> fl (8 / 10) \<le> compatibility_score (analyze_compatibility req na)"
    by (cases "has_local_ai na"; cases "req_external_apis req = []";
        cases "req_services req = []")
      (simp_all add: analyze_compatibility_def Let_def penalty_values round_values fl_literals)
  show "penalty_score ext ai no_services < fl (5 / 10) \<longrightarrow> ext"
    by (cases ext; cases ai; cases no_services) (simp_all add: penalty_values fl_literals)
qed

text \<open>Witness for C9: a workflow without credentials (no external API, no local
  service) scores 0.8 and is fully compatible; the score 0.19999999999999996 below 0.5
  belongs to an input that requires an external API.\<close>

theorem status_never_incompatible_witness:
  "\<not> requires_external_api (analyze_compatibility offline_requirements empty_analysis)
   \<and> status (analyze_compatibility offline_requirements empty_analysis) = ''fully_compatible''
   \<and> fl (8 / 10) \<le> compatibility_score (analyze_compatibility offline_requirements empty_analysis)
   \<and> penalty_score True False True < fl (5 / 10)"
  using status_never_incompatible [of offline_requirements empty_analysis True False True]
  by (simp add: analyze_compatibility_def Let_def offline_requirements_def empty_analysis_def
      penalty_values round_values fl_literals)

section \<open>The record builder\<close>

lemma parse_workflow_stamps:
  assumes "parse_workflow env json_path source_repo = Some w"
  shows "wf_created_at w = utcnow_iso env 0"
    and "wf_updated_at w = utcnow_iso env 1"
    and "wf_last_synced w = None"
  using assms
  by (auto simp: parse_workflow_def Let_def split: option.splits)

lemma parse_workflow_loaded:
  "file_json env = Some wd \<Longrightarrow> parse_workflow env json_path source_repo \<noteq> None"
  by (simp add: parse_workflow_def Let_def)

lemma parse_two_instants:
  "parse_workflow two_instants_env digest_path ''owner/repo''
     = Some (the (parse_workflow two_instants_env digest_path ''owner/repo''))"
  using parse_workflow_loaded [of two_instants_env empty_doc digest_path "''owner/repo''"]
  by (simp add: two_instants_env_def)

text \<open>
  Claim C8, evaluated on a run in which the clock moves by a microsecond between two
  readings: \<open>parse_workflow\<close> reads the clock once for \<open>created_at\<close> and once more
  for \<open>updated_at\<close>, so the document \<open>{}\<close> parses into a record whose two stamps
  differ; \<open>last_synced\<close> is unset.
\<close>

theorem created_at_differs_from_updated_at:
  "parse_workflow two_instants_env digest_path ''owner/repo'' \<noteq> None
   \<and> wf_created_at (the (parse_workflow two_instants_env digest_path ''owner/repo''))
       = ''2024-05-01T10:00:00.000001''
   \<and> wf_updated_at (the (parse_workflow two_instants_env digest_path ''owner/repo''))
       = ''2024-05-01T10:00:00.000002''
   \<and> wf_created_at (the (parse_workflow two_instants_env digest_path ''owner/repo''))
       \<noteq> wf_updated_at (the (parse_workflow two_instants_env digest_path ''owner/repo''))
   \<and> wf_last_synced (the (parse_workflow two_instants_env digest_path ''owner/repo'')) = None"
  using parse_workflow_stamps [OF parse_two_instants]
    parse_workflow_loaded [of two_instants_env empty_doc digest_path "''owner/repo''"]
  by (simp add: two_instants_env_def)

section \<open>The catalog store\<close>

lemma find_append_new:
  "\<not> list_ex P xs \<Longrightarrow> P y \<Longrightarrow> find P (xs @ [y]) = Some y"
  by (induction xs) auto

lemma insert_workflow_success:
  assumes "insert_workflow workflow db = (True, db')"
  shows "db' = db @ [insert_values workflow]"
    and "\<not> list_ex (\<lambda>r. r_id r = wf_id workflow) db"
  using assms by (auto simp: insert_workflow_def split: if_splits)

lemma get_after_insert:
  assumes "insert_workflow workflow db = (True, db')"
  shows "get_workflow (wf_id workflow) db' = Some (insert_values workflow)"
proof -
  have "r_id (insert_values workflow) = wf_id workflow"
    by (simp add: insert_values_def)
  then show ?thesis
    using insert_workflow_success [OF assms]
    by (simp add: get_workflow_def find_append_new)
qed

lemma insert_email_workflow:
  "insert_workflow email_workflow [] = (True, [insert_values email_workflow])"
  by (simp add: insert_workflow_def)

lemma email_tags_column:
  \<open>r_tags (insert_values email_workflow) = Some ''["email"]''\<close>
  by (simp add: insert_values_def email_workflow_def json_string_list_def json_list_def
      json_string_def json_escape_char_def)

text \<open>
  Claim C5, as stated, fails: \<open>get_workflow\<close> returns the stored row as a dictionary,
  not the record that was inserted.  After the workflow with the tag list
  \<open>['email']\<close> is inserted into the empty store, the dictionary returned for its id is
  not the inserted one: its \<open>tags\<close> is the string \<open>["email"]\<close>, where the inserted
  record has the list.
\<close>

theorem get_returns_stored_encoding:
  \<open>insert_workflow email_workflow [] = (True, [insert_values email_workflow])
   \<and> map_option py_row (get_workflow (wf_id email_workflow) [insert_values email_workflow])
       \<noteq> Some (py_workflow email_workflow)
   \<and> map_option (\<lambda>r. py_get (py_row r) ''tags'')
         (get_workflow (wf_id email_workflow) [insert_values email_workflow])
       = Some (Some (PyStr ''["email"]''))
   \<and> py_get (py_workflow email_workflow) ''tags'' = Some (PyList [PyStr ''email''])\<close>
proof -
  have g: "get_workflow (wf_id email_workflow) [insert_values email_workflow]
             = Some (insert_values email_workflow)"
    using get_after_insert [OF insert_email_workflow] .
  have t: \<open>py_get (py_row (insert_values email_workflow)) ''tags'' = Some (PyStr ''["email"]'')\<close>
    by (simp add: py_get_def py_row_def py_opt_def email_tags_column)
  have w: "py_get (py_workflow email_workflow) ''tags'' = Some (PyList [PyStr ''email''])"
    by (simp add: py_get_def py_workflow_def py_strs_def email_workflow_def)
  have "py_row (insert_values email_workflow) \<noteq> py_workflow email_workflow"
    using t w by auto
  then show ?thesis
    using g t w insert_email_workflow by simp
qed

text \<open>
  Claim C5, amended: for every workflow record \<open>r\<close>, after \<open>insert_workflow(r)\<close>
  returns success, \<open>get_workflow(r.id)\<close> returns the row stored for \<open>r\<close>, all 36
  columns of it: every text, number and timestamp field of \<open>r\<close> unchanged, the groups
  \<open>metadata\<close>, \<open>requirements\<close>, \<open>compatibility\<close> and \<open>stats\<close> flattened into
  columns (\<open>compatibility.status\<close> as \<open>compatibility_status\<close>), every boolean as 0 or
  1, and every list as its JSON text.
\<close>

theorem insert_then_get:
  assumes "insert_workflow workflow db = (True, db')"
  shows "get_workflow (wf_id workflow) db' = Some
     \<lparr>r_id = wf_id workflow,
      r_name = wf_name workflow,
      r_description = wf_description workflow,
      r_category = wf_category workflow,
      r_subcategory = wf_subcategory workflow,
      r_difficulty = wf_difficulty workflow,
      r_author = wf_author workflow,
      r_source_repo = wf_source_repo workflow,
      r_source_url = wf_source_url workflow,
      r_json_path = wf_json_path workflow,
      r_tags = Some (json_string_list (wf_tags workflow)),
      r_department = wf_department workflow,
      r_use_cases = Some (json_string_list (wf_use_cases workflow)),
      r_node_count = Some (md_node_count (wf_metadata workflow)),
      r_integrations = Some (json_string_list (md_integrations (wf_metadata workflow))),
      r_node_types = Some (json_string_list (md_node_types (wf_metadata workflow))),
      r_has_webhook = Some (if md_has_webhook (wf_metadata workflow) then 1 else 0),
      r_has_schedule = Some (if md_has_schedule (wf_metadata workflow) then 1 else 0),
      r_estimated_runtime = md_estimated_runtime (wf_metadata workflow),
      r_credentials =
        Some (json_credential_list (req_credentials (wf_requirements workflow))),
      r_services = Some (json_string_list (req_services (wf_requirements workflow))),
      r_external_apis =
        Some (json_string_list (req_external_apis (wf_requirements workflow))),
      r_min_n8n_version = Some (req_min_n8n_version (wf_requirements workflow)),
      r_local_ai = Some (if local_ai (wf_compatibility workflow) then 1 else 0),
      r_requires_external_api =
        Some (if requires_external_api (wf_compatibility workflow) then 1 else 0),
      r_works_offline = Some (if works_offline (wf_compatibility workflow) then 1 else 0),
      r_pozi_compatible =
        Some (if pozi_compatible (wf_compatibility workflow) then 1 else 0),
      r_compatibility_status = Some (status (wf_compatibility workflow)),
      r_compatibility_score = Some (compatibility_score (wf_compatibility workflow)),
      r_popularity_score = Some (stat_popularity_score (wf_stats workflow)),
      r_import_count = Some (stat_import_count (wf_stats workflow)),
      r_success_rate = Some (stat_success_rate (wf_stats workflow)),
      r_avg_setup_time = stat_avg_setup_time (wf_stats workflow),
      r_created_at = wf_created_at workflow,
      r_updated_at = wf_updated_at workflow,
      r_last_synced = wf_last_synced workflow\<rparr>"
  using get_after_insert [OF assms]
  by (simp add: insert_values_def flag_def)

text \<open>Witness for C5: the workflow tagged \<open>email\<close>, inserted into the empty
  store.\<close>

theorem insert_then_get_witness:
  \<open>insert_workflow email_workflow [] = (True, [insert_values email_workflow])
   \<and> map_option r_name (get_workflow (wf_id email_workflow) [insert_values email_workflow])
       = Some ''Mail digest''
   \<and> map_option r_tags (get_workflow (wf_id email_workflow) [insert_values email_workflow])
       = Some (Some ''["email"]'')
   \<and> map_option r_works_offline
         (get_workflow (wf_id email_workflow) [insert_values email_workflow])
       = Some (Some 1)\<close>
  using insert_then_get [OF insert_email_workflow] insert_email_workflow
  by (simp add: email_workflow_def json_string_list_def json_list_def json_string_def
      json_escape_char_def)

lemma like_wildcard: \<open>like (tag_pattern ''e_ail'') ''["email"]''\<close>
  by code_simp

lemma like_upper_case: \<open>like (tag_pattern ''EMAIL'') ''["email"]''\<close>
  by code_simp

lemma like_substring: \<open>\<not> like (tag_pattern ''mail'') ''["email"]''\<close>
  by code_simp

text \<open>
  Claim C4, evaluated on the store that holds the one workflow tagged \<open>email\<close>: the
  search with the tags filter \<open>["e_ail"]\<close> returns that row, and so does the search
  with \<open>["EMAIL"]\<close>, though neither string is an element of the row's tag list; the
  filter \<open>["mail"]\<close>, a substring of the tag, returns nothing.
\<close>

theorem tag_filter_pattern_match:
  "search_workflows no_fts None None None False (Some [''e_ail'']) 20 0
       [insert_values email_workflow]
     = [insert_values email_workflow]
   \<and> ''e_ail'' \<notin> set (wf_tags email_workflow)
   \<and> search_workflows no_fts None None None False (Some [''EMAIL'']) 20 0
       [insert_values email_workflow]
     = [insert_values email_workflow]
   \<and> ''EMAIL'' \<notin> set (wf_tags email_workflow)
   \<and> search_workflows no_fts None None None False (Some [''mail'']) 20 0
       [insert_values email_workflow]
     = []"
  by (simp add: search_workflows_def Let_def email_tags_column like_wildcard like_upper_case
      like_substring) (simp add: email_workflow_def)

lemma map_no_match: "\<not> list_ex P xs \<Longrightarrow> map (\<lambda>x. if P x then f x else x) xs = xs"
  by (induction xs) auto

lemma get_workflow_None: "get_workflow workflow_id db = None \<longleftrightarrow> \<not> list_ex (\<lambda>r. r_id r = workflow_id) db"
  by (induction db) (auto simp: get_workflow_def)

lemma update_unknown_id_table:
  assumes "get_workflow workflow_id db = None"
  shows "snd (update_workflow_stats now workflow_id import_count success_rate db) = db"
  using assms
  by (simp add: update_workflow_stats_def get_workflow_None map_no_match)





text \<open>The same search with the tag itself returns the row, and an update under the
  id the store holds changes that row's statistics and \<open>updated_at\<close>.\<close>

lemma like_exact: \<open>like (tag_pattern ''email'') ''["email"]''\<close>
  by code_simp

lemma tag_filter_exact_match:
  "search_workflows no_fts None None None False (Some [''email'']) 20 0
       [insert_values email_workflow]
     = [insert_values email_workflow]"
  by (simp add: search_workflows_def Let_def email_tags_column like_exact)

lemma update_stats_known_id:
  "update_workflow_stats ''2024-05-02T08:00:00'' (wf_id email_workflow) (Some 5) None
       [insert_values email_workflow]
     = (Inr (), [(insert_values email_workflow)
                   \<lparr>r_import_count := Some 5, r_updated_at := ''2024-05-02T08:00:00''\<rparr>])"
  by (simp add: update_workflow_stats_def insert_values_def sqlite_int_ok_def)

end
